theory Spec2Isabelle
  imports Complex_Main "HOL-Library.Multiset"
begin

section \<open>VisionAssistant: the scene-salience and narration engine of app.py\<close>

text \<open>
  The theory embeds the decision logic of \<^verbatim>\<open>src/app.py\<close>: \<^verbatim>\<open>should_speak\<close>,
  \<^verbatim>\<open>rank_objects\<close> with its local \<^verbatim>\<open>score\<close>, \<^verbatim>\<open>pick_main_and_danger\<close>, \<^verbatim>\<open>pos_word\<close>,
  \<^verbatim>\<open>distance_word\<close>, \<^verbatim>\<open>danger_word\<close>, \<^verbatim>\<open>describe\<close> and \<^verbatim>\<open>make_phrase\<close>, with the tables
  \<^verbatim>\<open>DANGER\<close> and \<^verbatim>\<open>RU_LABELS\<close>.

  Numbers. Python's \<^verbatim>\<open>int\<close> is \<^typ>\<open>int\<close>. A Python \<^verbatim>\<open>float\<close> is modelled by the real number
  it denotes: rounding, infinities and NaN are not represented, so a statement below
  speaks about the code as long as its sums, differences and products stay finite
  doubles. What is represented are the places where CPython raises instead of returning:
  true division by zero, the power operator \<^verbatim>\<open>**\<close> on a result beyond the double range,
  and the conversion of an \<^verbatim>\<open>int\<close> beyond the double range to \<^verbatim>\<open>float\<close> (which happens
  implicitly in \<^verbatim>\<open>int / int\<close>, \<^verbatim>\<open>float * int\<close> and \<^verbatim>\<open>float / int\<close>). Every function that can
  reach one of them returns \<open>py_error + 'a\<close>, with \<open>Inl\<close> for the exception.

  Strings. A Python \<^verbatim>\<open>str\<close> is a \<^typ>\<open>string\<close> holding its UTF-8 encoding; the source only
  compares and concatenates strings, which the encoding preserves. The Russian literals
  of the source are given byte by byte, with a transliteration beside them.
\<close>

subsection \<open>Exceptions and float arithmetic\<close>

datatype py_error = OverflowError | ZeroDivisionError

text \<open>
  A real number rounds to a finite double iff its magnitude is below
  \<open>2^1024 - 2^970\<close>, the midpoint between the largest double and \<open>2^1024\<close>
  (round-half-even sends the midpoint itself out of range).
\<close>

definition float_overflows :: "real \<Rightarrow> bool" where
  "float_overflows x = (2 ^ 1024 - 2 ^ 970 \<le> \<bar>x\<bar>)"

text \<open>\<^verbatim>\<open>float(n)\<close>, also implicit in mixed arithmetic: "int too large to convert to float".\<close>

definition int_to_float :: "int \<Rightarrow> py_error + real" where
  "int_to_float n =
     (if float_overflows (real_of_int n) then Inl OverflowError else Inr (real_of_int n))"

text \<open>\<^verbatim>\<open>a / b\<close> on two ints: "integer division result too large for a float".\<close>

definition int_truediv :: "int \<Rightarrow> int \<Rightarrow> py_error + real" where
  "int_truediv a b =
     (if b = 0 then Inl ZeroDivisionError
      else if float_overflows (real_of_int a / real_of_int b) then Inl OverflowError
      else Inr (real_of_int a / real_of_int b))"

text \<open>\<^verbatim>\<open>a / b\<close> on two floats.\<close>

definition float_truediv :: "real \<Rightarrow> real \<Rightarrow> py_error + real" where
  "float_truediv a b = (if b = 0 then Inl ZeroDivisionError else Inr (a / b))"

text \<open>\<^verbatim>\<open>x / n\<close> and \<^verbatim>\<open>x * n\<close> with a float \<open>x\<close> and an int \<open>n\<close>: \<open>n\<close> is converted first.\<close>

definition float_div_int :: "real \<Rightarrow> int \<Rightarrow> py_error + real" where
  "float_div_int x n =
     (case int_to_float n of Inl e \<Rightarrow> Inl e | Inr m \<Rightarrow> float_truediv x m)"

definition float_mul_int :: "real \<Rightarrow> int \<Rightarrow> py_error + real" where
  "float_mul_int x n =
     (case int_to_float n of Inl e \<Rightarrow> Inl e | Inr m \<Rightarrow> Inr (x * m))"

text \<open>
  \<^verbatim>\<open>x ** 2\<close> on a float: unlike \<^verbatim>\<open>x * x\<close>, which yields \<^verbatim>\<open>inf\<close>, the power operator raises
  OverflowError ("Numerical result out of range") when the result leaves the range.
\<close>

definition float_pow2 :: "real \<Rightarrow> py_error + real" where
  "float_pow2 x = (if float_overflows (x * x) then Inl OverflowError else Inr (x * x))"

subsection \<open>String literals of the source\<close>

text \<open>"sleva" (on the left), "sprava" (on the right), "po tsentru" (in the centre).\<close>

definition word_left :: string where
  "word_left =
     [CHR 0xD1, CHR 0x81, CHR 0xD0, CHR 0xBB, CHR 0xD0, CHR 0xB5, CHR 0xD0, CHR 0xB2,
      CHR 0xD0, CHR 0xB0]"

definition word_right :: string where
  "word_right =
     [CHR 0xD1, CHR 0x81, CHR 0xD0, CHR 0xBF, CHR 0xD1, CHR 0x80, CHR 0xD0, CHR 0xB0,
      CHR 0xD0, CHR 0xB2, CHR 0xD0, CHR 0xB0]"

definition word_center :: string where
  "word_center =
     [CHR 0xD0, CHR 0xBF, CHR 0xD0, CHR 0xBE, CHR 0x20, CHR 0xD1, CHR 0x86, CHR 0xD0,
      CHR 0xB5, CHR 0xD0, CHR 0xBD, CHR 0xD1, CHR 0x82, CHR 0xD1, CHR 0x80, CHR 0xD1,
      CHR 0x83]"

text \<open>
  "ochen' blizko" (very close), "blizko" (close), "na srednem rasstoyanii" (at a medium
  distance), "daleko" (far).
\<close>

definition word_very_close :: string where
  "word_very_close =
     [CHR 0xD0, CHR 0xBE, CHR 0xD1, CHR 0x87, CHR 0xD0, CHR 0xB5, CHR 0xD0, CHR 0xBD,
      CHR 0xD1, CHR 0x8C, CHR 0x20, CHR 0xD0, CHR 0xB1, CHR 0xD0, CHR 0xBB, CHR 0xD0,
      CHR 0xB8, CHR 0xD0, CHR 0xB7, CHR 0xD0, CHR 0xBA, CHR 0xD0, CHR 0xBE]"

definition word_close :: string where
  "word_close =
     [CHR 0xD0, CHR 0xB1, CHR 0xD0, CHR 0xBB, CHR 0xD0, CHR 0xB8, CHR 0xD0, CHR 0xB7,
      CHR 0xD0, CHR 0xBA, CHR 0xD0, CHR 0xBE]"

definition word_medium :: string where
  "word_medium =
     [CHR 0xD0, CHR 0xBD, CHR 0xD0, CHR 0xB0, CHR 0x20, CHR 0xD1, CHR 0x81, CHR 0xD1,
      CHR 0x80, CHR 0xD0, CHR 0xB5, CHR 0xD0, CHR 0xB4, CHR 0xD0, CHR 0xBD, CHR 0xD0,
      CHR 0xB5, CHR 0xD0, CHR 0xBC, CHR 0x20, CHR 0xD1, CHR 0x80, CHR 0xD0, CHR 0xB0,
      CHR 0xD1, CHR 0x81, CHR 0xD1, CHR 0x81, CHR 0xD1, CHR 0x82, CHR 0xD0, CHR 0xBE,
      CHR 0xD1, CHR 0x8F, CHR 0xD0, CHR 0xBD, CHR 0xD0, CHR 0xB8, CHR 0xD0, CHR 0xB8]"

definition word_far :: string where
  "word_far =
     [CHR 0xD0, CHR 0xB4, CHR 0xD0, CHR 0xB0, CHR 0xD0, CHR 0xBB, CHR 0xD0, CHR 0xB5,
      CHR 0xD0, CHR 0xBA, CHR 0xD0, CHR 0xBE]"

text \<open>"opasno" (dangerous), "ne opasno" (not dangerous).\<close>

definition word_dangerous :: string where
  "word_dangerous =
     [CHR 0xD0, CHR 0xBE, CHR 0xD0, CHR 0xBF, CHR 0xD0, CHR 0xB0, CHR 0xD1, CHR 0x81,
      CHR 0xD0, CHR 0xBD, CHR 0xD0, CHR 0xBE]"

definition word_not_dangerous :: string where
  "word_not_dangerous =
     [CHR 0xD0, CHR 0xBD, CHR 0xD0, CHR 0xB5, CHR 0x20, CHR 0xD0, CHR 0xBE, CHR 0xD0,
      CHR 0xBF, CHR 0xD0, CHR 0xB0, CHR 0xD1, CHR 0x81, CHR 0xD0, CHR 0xBD, CHR 0xD0,
      CHR 0xBE]"

text \<open>
  The sentence returned for an empty selection: "Ya ne vizhu uverennykh ob'ektov.
  Podoidite blizhe ili uluchshite osveshchenie." (I see no confident objects. Come
  closer or improve the lighting.)
\<close>

definition fallback_phrase :: string where
  "fallback_phrase =
     [CHR 0xD0, CHR 0xAF, CHR 0x20, CHR 0xD0, CHR 0xBD, CHR 0xD0, CHR 0xB5, CHR 0x20,
      CHR 0xD0, CHR 0xB2, CHR 0xD0, CHR 0xB8, CHR 0xD0, CHR 0xB6, CHR 0xD1, CHR 0x83,
      CHR 0x20, CHR 0xD1, CHR 0x83, CHR 0xD0, CHR 0xB2, CHR 0xD0, CHR 0xB5, CHR 0xD1,
      CHR 0x80, CHR 0xD0, CHR 0xB5, CHR 0xD0, CHR 0xBD, CHR 0xD0, CHR 0xBD, CHR 0xD1,
      CHR 0x8B, CHR 0xD1, CHR 0x85, CHR 0x20, CHR 0xD0, CHR 0xBE, CHR 0xD0, CHR 0xB1,
      CHR 0xD1, CHR 0x8A, CHR 0xD0, CHR 0xB5, CHR 0xD0, CHR 0xBA, CHR 0xD1, CHR 0x82,
      CHR 0xD0, CHR 0xBE, CHR 0xD0, CHR 0xB2, CHR 0x2E, CHR 0x20, CHR 0xD0, CHR 0x9F,
      CHR 0xD0, CHR 0xBE, CHR 0xD0, CHR 0xB4, CHR 0xD0, CHR 0xBE, CHR 0xD0, CHR 0xB9,
      CHR 0xD0, CHR 0xB4, CHR 0xD0, CHR 0xB8, CHR 0xD1, CHR 0x82, CHR 0xD0, CHR 0xB5,
      CHR 0x20, CHR 0xD0, CHR 0xB1, CHR 0xD0, CHR 0xBB, CHR 0xD0, CHR 0xB8, CHR 0xD0,
      CHR 0xB6, CHR 0xD0, CHR 0xB5, CHR 0x20, CHR 0xD0, CHR 0xB8, CHR 0xD0, CHR 0xBB,
      CHR 0xD0, CHR 0xB8, CHR 0x20, CHR 0xD1, CHR 0x83, CHR 0xD0, CHR 0xBB, CHR 0xD1,
      CHR 0x83, CHR 0xD1, CHR 0x87, CHR 0xD1, CHR 0x88, CHR 0xD0, CHR 0xB8, CHR 0xD1,
      CHR 0x82, CHR 0xD0, CHR 0xB5, CHR 0x20, CHR 0xD0, CHR 0xBE, CHR 0xD1, CHR 0x81,
      CHR 0xD0, CHR 0xB2, CHR 0xD0, CHR 0xB5, CHR 0xD1, CHR 0x89, CHR 0xD0, CHR 0xB5,
      CHR 0xD0, CHR 0xBD, CHR 0xD0, CHR 0xB8, CHR 0xD0, CHR 0xB5, CHR 0x2E]"

text \<open>
  The fixed parts of the two f-strings of \<^verbatim>\<open>make_phrase\<close>: "Pered vami " (in front of
  you), ". Eto " (. This is) and "Takzhe " (also), each with its trailing space.
\<close>

definition txt_before_you :: string where
  "txt_before_you =
     [CHR 0xD0, CHR 0x9F, CHR 0xD0, CHR 0xB5, CHR 0xD1, CHR 0x80, CHR 0xD0, CHR 0xB5,
      CHR 0xD0, CHR 0xB4, CHR 0x20, CHR 0xD0, CHR 0xB2, CHR 0xD0, CHR 0xB0, CHR 0xD0,
      CHR 0xBC, CHR 0xD0, CHR 0xB8, CHR 0x20]"

definition txt_this_is :: string where
  "txt_this_is =
     [CHR 0x2E, CHR 0x20, CHR 0xD0, CHR 0xAD, CHR 0xD1, CHR 0x82, CHR 0xD0, CHR 0xBE,
      CHR 0x20]"

definition txt_also :: string where
  "txt_also =
     [CHR 0xD0, CHR 0xA2, CHR 0xD0, CHR 0xB0, CHR 0xD0, CHR 0xBA, CHR 0xD0, CHR 0xB6,
      CHR 0xD0, CHR 0xB5, CHR 0x20]"

subsection \<open>Configuration tables\<close>

definition DANGER :: "string set" where
  "DANGER = {''car'', ''bus'', ''truck'', ''motorcycle'', ''bicycle''}"

text \<open>The dict \<^verbatim>\<open>RU_LABELS\<close> in source order; its keys are distinct.\<close>

definition RU_LABELS :: "(string \<times> string) list" where
  "RU_LABELS =
  [(''person'',
      [CHR 0xD1, CHR 0x87, CHR 0xD0, CHR 0xB5, CHR 0xD0, CHR 0xBB, CHR 0xD0, CHR 0xBE,
       CHR 0xD0, CHR 0xB2, CHR 0xD0, CHR 0xB5, CHR 0xD0, CHR 0xBA]),
   (''car'',
      [CHR 0xD0, CHR 0xBC, CHR 0xD0, CHR 0xB0, CHR 0xD1, CHR 0x88, CHR 0xD0, CHR 0xB8,
       CHR 0xD0, CHR 0xBD, CHR 0xD0, CHR 0xB0]),
   (''bus'',
      [CHR 0xD0, CHR 0xB0, CHR 0xD0, CHR 0xB2, CHR 0xD1, CHR 0x82, CHR 0xD0, CHR 0xBE,
       CHR 0xD0, CHR 0xB1, CHR 0xD1, CHR 0x83, CHR 0xD1, CHR 0x81]),
   (''truck'',
      [CHR 0xD0, CHR 0xB3, CHR 0xD1, CHR 0x80, CHR 0xD1, CHR 0x83, CHR 0xD0, CHR 0xB7,
       CHR 0xD0, CHR 0xBE, CHR 0xD0, CHR 0xB2, CHR 0xD0, CHR 0xB8, CHR 0xD0, CHR 0xBA]),
   (''motorcycle'',
      [CHR 0xD0, CHR 0xBC, CHR 0xD0, CHR 0xBE, CHR 0xD1, CHR 0x82, CHR 0xD0, CHR 0xBE,
       CHR 0xD1, CHR 0x86, CHR 0xD0, CHR 0xB8, CHR 0xD0, CHR 0xBA, CHR 0xD0, CHR 0xBB]),
   (''bicycle'',
      [CHR 0xD0, CHR 0xB2, CHR 0xD0, CHR 0xB5, CHR 0xD0, CHR 0xBB, CHR 0xD0, CHR 0xBE,
       CHR 0xD1, CHR 0x81, CHR 0xD0, CHR 0xB8, CHR 0xD0, CHR 0xBF, CHR 0xD0, CHR 0xB5,
       CHR 0xD0, CHR 0xB4]),
   (''traffic light'',
      [CHR 0xD1, CHR 0x81, CHR 0xD0, CHR 0xB2, CHR 0xD0, CHR 0xB5, CHR 0xD1, CHR 0x82,
       CHR 0xD0, CHR 0xBE, CHR 0xD1, CHR 0x84, CHR 0xD0, CHR 0xBE, CHR 0xD1, CHR 0x80]),
   (''stop sign'',
      [CHR 0xD0, CHR 0xB7, CHR 0xD0, CHR 0xBD, CHR 0xD0, CHR 0xB0, CHR 0xD0, CHR 0xBA,
       CHR 0x20, CHR 0xD1, CHR 0x81, CHR 0xD1, CHR 0x82, CHR 0xD0, CHR 0xBE, CHR 0xD0,
       CHR 0xBF]),
   (''chair'',
      [CHR 0xD1, CHR 0x81, CHR 0xD1, CHR 0x82, CHR 0xD1, CHR 0x83, CHR 0xD0, CHR 0xBB]),
   (''couch'',
      [CHR 0xD0, CHR 0xB4, CHR 0xD0, CHR 0xB8, CHR 0xD0, CHR 0xB2, CHR 0xD0, CHR 0xB0,
       CHR 0xD0, CHR 0xBD]),
   (''bed'',
      [CHR 0xD0, CHR 0xBA, CHR 0xD1, CHR 0x80, CHR 0xD0, CHR 0xBE, CHR 0xD0, CHR 0xB2,
       CHR 0xD0, CHR 0xB0, CHR 0xD1, CHR 0x82, CHR 0xD1, CHR 0x8C]),
   (''dining table'',
      [CHR 0xD1, CHR 0x81, CHR 0xD1, CHR 0x82, CHR 0xD0, CHR 0xBE, CHR 0xD0, CHR 0xBB]),
   (''laptop'',
      [CHR 0xD0, CHR 0xBD, CHR 0xD0, CHR 0xBE, CHR 0xD1, CHR 0x83, CHR 0xD1, CHR 0x82,
       CHR 0xD0, CHR 0xB1, CHR 0xD1, CHR 0x83, CHR 0xD0, CHR 0xBA]),
   (''cell phone'',
      [CHR 0xD1, CHR 0x82, CHR 0xD0, CHR 0xB5, CHR 0xD0, CHR 0xBB, CHR 0xD0, CHR 0xB5,
       CHR 0xD1, CHR 0x84, CHR 0xD0, CHR 0xBE, CHR 0xD0, CHR 0xBD]),
   (''tv'',
      [CHR 0xD1, CHR 0x82, CHR 0xD0, CHR 0xB5, CHR 0xD0, CHR 0xBB, CHR 0xD0, CHR 0xB5,
       CHR 0xD0, CHR 0xB2, CHR 0xD0, CHR 0xB8, CHR 0xD0, CHR 0xB7, CHR 0xD0, CHR 0xBE,
       CHR 0xD1, CHR 0x80]),
   (''bottle'',
      [CHR 0xD0, CHR 0xB1, CHR 0xD1, CHR 0x83, CHR 0xD1, CHR 0x82, CHR 0xD1, CHR 0x8B,
       CHR 0xD0, CHR 0xBB, CHR 0xD0, CHR 0xBA, CHR 0xD0, CHR 0xB0]),
   (''cup'',
      [CHR 0xD0, CHR 0xBA, CHR 0xD1, CHR 0x80, CHR 0xD1, CHR 0x83, CHR 0xD0, CHR 0xB6,
       CHR 0xD0, CHR 0xBA, CHR 0xD0, CHR 0xB0]),
   (''book'',
      [CHR 0xD0, CHR 0xBA, CHR 0xD0, CHR 0xBD, CHR 0xD0, CHR 0xB8, CHR 0xD0, CHR 0xB3,
       CHR 0xD0, CHR 0xB0]),
   (''backpack'',
      [CHR 0xD1, CHR 0x80, CHR 0xD1, CHR 0x8E, CHR 0xD0, CHR 0xBA, CHR 0xD0, CHR 0xB7,
       CHR 0xD0, CHR 0xB0, CHR 0xD0, CHR 0xBA]),
   (''handbag'',
      [CHR 0xD1, CHR 0x81, CHR 0xD1, CHR 0x83, CHR 0xD0, CHR 0xBC, CHR 0xD0, CHR 0xBA,
       CHR 0xD0, CHR 0xB0]),
   (''dog'',
      [CHR 0xD1, CHR 0x81, CHR 0xD0, CHR 0xBE, CHR 0xD0, CHR 0xB1, CHR 0xD0, CHR 0xB0,
       CHR 0xD0, CHR 0xBA, CHR 0xD0, CHR 0xB0]),
   (''cat'',
      [CHR 0xD0, CHR 0xBA, CHR 0xD0, CHR 0xBE, CHR 0xD1, CHR 0x82])]"

text \<open>\<^verbatim>\<open>RU_LABELS.get(x, x)\<close>: the raw label when the table has no entry.\<close>

definition ru_label :: "string \<Rightarrow> string" where
  "ru_label x = (case map_of RU_LABELS x of None \<Rightarrow> x | Some v \<Rightarrow> v)"

subsection \<open>Data\<close>

text \<open>
  A detection is the dict \<^verbatim>\<open>{"label": ..., "conf": ..., "bbox": (x1, y1, x2, y2)}\<close> that
  \<^verbatim>\<open>detect_from_image_bytes\<close> builds.
\<close>

record detection =
  label :: string
  conf :: real
  bbox :: "real \<times> real \<times> real \<times> real"

text \<open>The dict returned by \<^verbatim>\<open>describe\<close>; the key \<^verbatim>\<open>"dist"\<close> is the field \<open>dist_w\<close>.\<close>

record descriptor =
  name :: string
  pos :: string
  dist_w :: string
  danger :: string

text \<open>The module-level dict \<^verbatim>\<open>LAST\<close> and its initial value.\<close>

record last =
  phrase :: string
  time :: real

definition LAST_init :: last where
  "LAST_init = \<lparr>phrase = [], time = 0\<rparr>"

subsection \<open>The speech gate\<close>

text \<open>
  \<^verbatim>\<open>should_speak\<close> reads the clock (\<open>now\<close>) and the global \<^verbatim>\<open>LAST\<close>, and writes \<^verbatim>\<open>LAST\<close> on the
  path that returns True. The model takes both and returns the answer with the new
  \<^verbatim>\<open>LAST\<close>.
\<close>

definition should_speak :: "string \<Rightarrow> real \<Rightarrow> real \<Rightarrow> last \<Rightarrow> bool \<times> last" where
  "should_speak phr cooldown_sec now LAST =
     (if phr = phrase LAST \<and> now - time LAST < cooldown_sec then (False, LAST)
      else (True, LAST\<lparr>phrase := phr, time := now\<rparr>))"

subsection \<open>Ranking\<close>

text \<open>The local \<^verbatim>\<open>priority\<close> of \<^verbatim>\<open>score\<close>, as a function of the label.\<close>

definition priority :: "string \<Rightarrow> real" where
  "priority l = (if l \<in> DANGER then 1.35 else 1.0)"

text \<open>
  The closure \<^verbatim>\<open>score\<close>, with the variables it captures as parameters. The base of
  \<^verbatim>\<open>** 0.5\<close> is a sum of two squares, so the power is the real square root.
\<close>

definition score :: "real \<Rightarrow> real \<Rightarrow> int \<Rightarrow> detection \<Rightarrow> py_error + real" where
  "score cx_img cy_img img_area d =
     (case bbox d of (x1, y1, x2, y2) \<Rightarrow>
        let area = max 0 (x2 - x1) * max 0 (y2 - y1);
            cx = (x1 + x2) / 2;
            cy = (y1 + y2) / 2
        in (case float_pow2 (cx - cx_img) of Inl e \<Rightarrow> Inl e | Inr dx2 \<Rightarrow>
           (case float_pow2 (cy - cy_img) of Inl e \<Rightarrow> Inl e | Inr dy2 \<Rightarrow>
           (let dist = sqrt (dx2 + dy2) in
           (case float_truediv 1 (1 + dist) of Inl e \<Rightarrow> Inl e | Inr center_score \<Rightarrow>
           (case float_mul_int (0.4 * center_score) img_area of Inl e \<Rightarrow> Inl e | Inr c \<Rightarrow>
            Inr ((0.6 * area + c) * conf d * priority (label d))))))))"

text \<open>
  \<^verbatim>\<open>sorted(xs, key=f, reverse=True)\<close> as CPython's \<^verbatim>\<open>list.sort\<close> does it: the keys are
  computed once, in input order, and the first exception ends the call; the list is
  reversed, sorted by a stable ascending sort on the keys, and reversed again.
\<close>

fun keys_of :: "('a \<Rightarrow> py_error + real) \<Rightarrow> 'a list \<Rightarrow> py_error + real list" where
  "keys_of f [] = Inr []"
| "keys_of f (x # xs) =
     (case f x of Inl e \<Rightarrow> Inl e
      | Inr k \<Rightarrow> (case keys_of f xs of Inl e \<Rightarrow> Inl e | Inr ks \<Rightarrow> Inr (k # ks)))"

definition sorted_reverse :: "('a \<Rightarrow> py_error + real) \<Rightarrow> 'a list \<Rightarrow> py_error + 'a list" where
  "sorted_reverse f xs =
     (case keys_of f xs of Inl e \<Rightarrow> Inl e
      | Inr ks \<Rightarrow> Inr (map snd (rev (sort_key fst (rev (zip ks xs))))))"

definition rank_objects :: "detection list \<Rightarrow> int \<Rightarrow> int \<Rightarrow> py_error + detection list" where
  "rank_objects dets w h =
     (if dets = [] then Inr []
      else (case int_truediv w 2 of Inl e \<Rightarrow> Inl e | Inr cx_img \<Rightarrow>
           (case int_truediv h 2 of Inl e \<Rightarrow> Inl e | Inr cy_img \<Rightarrow>
           (let img_area = max (w * h) 1
            in sorted_reverse (score cx_img cy_img img_area) dets))))"

text \<open>
  The salience score that \<^verbatim>\<open>rank_objects dets w h\<close> gives a detection: \<^verbatim>\<open>score\<close> under the
  bindings of \<^verbatim>\<open>cx_img\<close>, \<^verbatim>\<open>cy_img\<close> and \<^verbatim>\<open>img_area\<close> made for the frame.
\<close>

definition frame_score :: "int \<Rightarrow> int \<Rightarrow> detection \<Rightarrow> py_error + real" where
  "frame_score w h d =
     (case int_truediv w 2 of Inl e \<Rightarrow> Inl e | Inr cx_img \<Rightarrow>
     (case int_truediv h 2 of Inl e \<Rightarrow> Inl e | Inr cy_img \<Rightarrow>
      score cx_img cy_img (max (w * h) 1) d))"

subsection \<open>Selection\<close>

text \<open>
  The loop over \<^verbatim>\<open>ranked[1:]\<close> that sets \<^verbatim>\<open>danger_obj\<close> and breaks; \<open>None\<close> when it runs
  to the end. A detection is a dict with three keys, hence true in a condition, so the
  test \<^verbatim>\<open>if danger_obj:\<close> that follows the loop asks whether the loop has found one.
\<close>

fun danger_obj :: "detection \<Rightarrow> detection list \<Rightarrow> detection option" where
  "danger_obj main [] = None"
| "danger_obj main (d # ds) =
     (if label d \<in> DANGER \<and> label d \<noteq> label main then Some d else danger_obj main ds)"

fun pick_main_and_danger :: "detection list \<Rightarrow> detection list" where
  "pick_main_and_danger [] = []"
| "pick_main_and_danger (main # rest) =
     (case danger_obj main rest of
        Some d \<Rightarrow> [main, d]
      | None \<Rightarrow>
          (case rest of
             [] \<Rightarrow> [main]
           | second # _ \<Rightarrow> if conf second \<ge> 0.45 then [main, second] else [main]))"

subsection \<open>Descriptors and the sentence\<close>

definition pos_word :: "real \<Rightarrow> int \<Rightarrow> py_error + string" where
  "pos_word cx w =
     (case float_div_int cx (max w 1) of Inl e \<Rightarrow> Inl e
      | Inr x \<Rightarrow>
          Inr (if x < 0.35 then word_left
               else if x > 0.65 then word_right
               else word_center))"

definition distance_word :: "real \<Rightarrow> string" where
  "distance_word area_ratio =
     (if area_ratio > 0.22 then word_very_close
      else if area_ratio > 0.10 then word_close
      else if area_ratio > 0.04 then word_medium
      else word_far)"

definition danger_word :: "string \<Rightarrow> string" where
  "danger_word l = (if l \<in> DANGER then word_dangerous else word_not_dangerous)"

definition describe :: "detection \<Rightarrow> int \<Rightarrow> int \<Rightarrow> py_error + descriptor" where
  "describe obj w h =
     (case bbox obj of (x1, y1, x2, y2) \<Rightarrow>
        let cx = (x1 + x2) / 2;
            area = max 0 (x2 - x1) * max 0 (y2 - y1)
        in (case float_div_int area (max (w * h) 1) of Inl e \<Rightarrow> Inl e | Inr area_ratio \<Rightarrow>
           (case pos_word cx w of Inl e \<Rightarrow> Inl e | Inr p \<Rightarrow>
            Inr \<lparr>name = ru_label (label obj), pos = p,
                 dist_w = distance_word area_ratio, danger = danger_word (label obj)\<rparr>)))"

fun make_phrase :: "detection list \<Rightarrow> int \<Rightarrow> int \<Rightarrow> py_error + string" where
  "make_phrase [] w h = Inr fallback_phrase"
| "make_phrase (obj0 # rest) w h =
     (case describe obj0 w h of Inl e \<Rightarrow> Inl e | Inr a \<Rightarrow>
       (let phr = txt_before_you @ name a @ '', '' @ pos a @ '', '' @ dist_w a
                  @ txt_this_is @ danger a @ ''.''
        in (case rest of
              [] \<Rightarrow> Inr phr
            | obj1 # _ \<Rightarrow>
                (case describe obj1 w h of Inl e \<Rightarrow> Inl e | Inr b \<Rightarrow>
                  (let extra = txt_also @ name b @ '', '' @ pos b @ '', '' @ dist_w b
                               @ txt_this_is @ danger b @ ''.''
                   in Inr (phr @ '' '' @ extra))))))"

subsection \<open>Concrete inputs used in the examples\<close>

text \<open>The detection of the end-to-end scenario, in a 640 x 480 frame.\<close>

definition car_det :: detection where
  "car_det = \<lparr>label = ''car'', conf = 0.9, bbox = (100, 100, 300, 300)\<rparr>"

text \<open>
  A 200 x 200 box around the centre (320, 240) of a 640 x 480 frame, with confidence 0.5:
  its distance to the centre is 0, so its score is \<open>(0.6 * 40000 + 0.4 * 307200) * 0.5\<close>
  times the priority of its label.
\<close>

definition centred :: "string \<Rightarrow> detection" where
  "centred l = \<lparr>label = l, conf = 0.5, bbox = (220, 140, 420, 340)\<rparr>"

text \<open>Four detections that differ in label and confidence only.\<close>

definition det_person :: detection where
  "det_person = \<lparr>label = ''person'', conf = 0.9, bbox = (0, 0, 10, 10)\<rparr>"

definition det_cat :: detection where
  "det_cat = \<lparr>label = ''cat'', conf = 0.8, bbox = (0, 0, 10, 10)\<rparr>"

definition det_cat_faint :: detection where
  "det_cat_faint = \<lparr>label = ''cat'', conf = 0.3, bbox = (0, 0, 10, 10)\<rparr>"

definition det_bus :: detection where
  "det_bus = \<lparr>label = ''bus'', conf = 0.4, bbox = (0, 0, 10, 10)\<rparr>"


text \<open>
  Inputs with degenerate geometry and a label that neither table knows: a box whose
  corners are swapped, and a box that reaches far outside any frame.
\<close>

definition inverted_det :: detection where
  "inverted_det = \<lparr>label = ''unicorn'', conf = 0.9, bbox = (300, 300, 100, 100)\<rparr>"

definition outside_det :: detection where
  "outside_det = \<lparr>label = ''unicorn'', conf = 0.5, bbox = (- 50, - 50, 5000, 5000)\<rparr>"

text \<open>
  A box of area 0 at \<open>x = 2^600\<close> (about 4e180, a double), and the boxes whose four
  coordinates are at most \<open>b\<close> in magnitude.
\<close>

definition far_box :: detection where
  "far_box = \<lparr>label = ''car'', conf = 0.9, bbox = (2 ^ 600, 0, 2 ^ 600, 0)\<rparr>"

definition box_within :: "real \<Rightarrow> detection \<Rightarrow> bool" where
  "box_within b d =
     (case bbox d of (x1, y1, x2, y2) \<Rightarrow> \<bar>x1\<bar> \<le> b \<and> \<bar>y1\<bar> \<le> b \<and> \<bar>x2\<bar> \<le> b \<and> \<bar>y2\<bar> \<le> b)"


section \<open>The speech gate\<close>

text \<open>
  C3. \<^verbatim>\<open>should_speak\<close> returns False exactly when the phrase equals \<^verbatim>\<open>LAST["phrase"]\<close> and
  \<^verbatim>\<open>now - LAST["time"]\<close> is below the cooldown. In every other case it returns True and
  sets \<^verbatim>\<open>LAST\<close> to the phrase and to \<open>now\<close>; \<^verbatim>\<open>LAST\<close> changes only when the answer is
  True.
\<close>

theorem should_speak_gate:
  "fst (should_speak p c now L) = (\<not> (p = phrase L \<and> now - time L < c)) \<and>
   snd (should_speak p c now L) =
     (if fst (should_speak p c now L) then L\<lparr>phrase := p, time := now\<rparr> else L)"
  by (simp add: should_speak_def)

text \<open>
  The scenario of the specification, threaded through the state: "A" at time 0 on the
  initial state is spoken (the cooldown is 0 there, since the initial time stamp is 0
  as well); "A" again at time 1 with cooldown 3 is not, and leaves the state alone; "A"
  at time 4 is spoken; "B" at time 1 is spoken.
\<close>

lemma should_speak_scenario:
  "should_speak ''A'' 3 0 LAST_init = (True, \<lparr>phrase = ''A'', time = 0\<rparr>) \<and>
   should_speak ''A'' 3 1 \<lparr>phrase = ''A'', time = 0\<rparr> = (False, \<lparr>phrase = ''A'', time = 0\<rparr>) \<and>
   should_speak ''A'' 3 4 \<lparr>phrase = ''A'', time = 0\<rparr> = (True, \<lparr>phrase = ''A'', time = 4\<rparr>) \<and>
   should_speak ''B'' 3 1 \<lparr>phrase = ''A'', time = 0\<rparr> = (True, \<lparr>phrase = ''B'', time = 1\<rparr>)"
  by (simp add: should_speak_def LAST_init_def)

text \<open>
  On the initial state the first call speaks exactly when the phrase is not empty or
  the clock has reached the cooldown.
\<close>

lemma first_call_speaks_iff:
  "fst (should_speak p c now LAST_init) = (p \<noteq> [] \<or> c \<le> now)"
  by (auto simp add: should_speak_def LAST_init_def)

text \<open>
  C10. With the initial \<^verbatim>\<open>LAST\<close> (empty phrase, time 0), the empty phrase and a clock with
  \<open>now - 0 < cooldown\<close>, \<^verbatim>\<open>should_speak\<close> returns False and leaves \<^verbatim>\<open>LAST\<close> as it is; at
  such a time the first call speaks exactly for the phrases that are not empty.
\<close>

theorem should_speak_initial_empty:
  assumes "now - 0 < c"
  shows "should_speak [] c now LAST_init = (False, LAST_init) \<and>
         fst (should_speak p c now LAST_init) = (p \<noteq> [])"
  using assms by (auto simp add: should_speak_def LAST_init_def)

theorem should_speak_initial_empty_witness:
  "(1::real) - 0 < 3 \<and> should_speak [] 3 1 LAST_init = (False, LAST_init) \<and>
   fst (should_speak ''A'' 3 1 LAST_init) = (''A'' \<noteq> [])"
  using should_speak_initial_empty [of 1 3 "''A''"] by simp


section \<open>Empty input\<close>

text \<open>
  C9. Ranking the empty list gives the empty list, selecting from the empty list gives
  the empty selection, and the sentence for the empty selection is the fixed fallback
  sentence, whatever the frame.
\<close>

theorem empty_input_degrades:
  "rank_objects [] w h = Inr [] \<and> pick_main_and_danger [] = [] \<and>
   make_phrase [] w h = Inr fallback_phrase"
  by (simp add: rank_objects_def)


section \<open>Selection\<close>

lemma danger_obj_find:
  "danger_obj main ds = find (\<lambda>d. label d \<in> DANGER \<and> label d \<noteq> label main) ds"
  by (induction ds) simp_all

text \<open>
  C2. On a non-empty ranked list the selection starts with \<open>ranked ! 0\<close>. The second
  element is the first detection of \<open>ranked[1:]\<close> whose label is in \<^verbatim>\<open>DANGER\<close> and differs
  from the label of \<open>ranked ! 0\<close>, when there is one; failing that it is \<open>ranked ! 1\<close>,
  when that exists and has confidence at least 0.45; failing that there is none.
\<close>

theorem pick_main_and_danger_select:
  assumes "ranked \<noteq> []"
  shows "pick_main_and_danger ranked =
     (case find (\<lambda>d. label d \<in> DANGER \<and> label d \<noteq> label (ranked ! 0)) (drop 1 ranked) of
        Some d \<Rightarrow> [ranked ! 0, d]
      | None \<Rightarrow>
          if 1 < length ranked \<and> 0.45 \<le> conf (ranked ! 1) then [ranked ! 0, ranked ! 1]
          else [ranked ! 0])"
proof (cases ranked)
  case Nil
  with assms show ?thesis by simp
next
  case (Cons main rest)
  then show ?thesis
    by (cases rest) (simp_all add: danger_obj_find split: option.splits)
qed

text \<open>
  Three selections: a bus behind a cat is preferred to the cat; without a hazard the
  confident second detection is taken; a second bus behind a bus is no hazard of a
  different label, and with confidence 0.4 it is not taken as second detection either.
\<close>

theorem pick_main_and_danger_select_witness:
  "[det_person, det_cat, det_bus] \<noteq> [] \<and>
   pick_main_and_danger [det_person, det_cat, det_bus] = [det_person, det_bus] \<and>
   [det_person, det_cat] \<noteq> [] \<and>
   pick_main_and_danger [det_person, det_cat] = [det_person, det_cat] \<and>
   [det_bus, det_bus, det_cat_faint] \<noteq> [] \<and>
   pick_main_and_danger [det_bus, det_bus, det_cat_faint] = [det_bus]"
  using pick_main_and_danger_select [of "[det_person, det_cat, det_bus]"]
    pick_main_and_danger_select [of "[det_person, det_cat]"]
    pick_main_and_danger_select [of "[det_bus, det_bus, det_cat_faint]"]
  by (simp add: det_person_def det_cat_def det_bus_def det_cat_faint_def DANGER_def)


section \<open>Where the arithmetic can fail\<close>

text \<open>The divisor \<open>1 + dist\<close> of \<^verbatim>\<open>score\<close> is never 0.\<close>

lemma one_plus_sqrt_nonzero: "0 \<le> x \<Longrightarrow> 1 + sqrt x \<noteq> 0"
  using real_sqrt_ge_zero [of x] by linarith

subsection \<open>No division by zero\<close>

lemma no_overflow: "\<bar>x\<bar> \<le> 2 ^ 1023 \<Longrightarrow> \<not> float_overflows x"
  by (simp add: float_overflows_def)

lemma float_pow2_no_zero_div: "float_pow2 x \<noteq> Inl ZeroDivisionError"
  by (simp add: float_pow2_def)

lemma float_pow2_nonneg: "float_pow2 x = Inr y \<Longrightarrow> 0 \<le> y"
  by (auto simp: float_pow2_def split: if_splits)

lemma int_to_float_no_zero_div: "int_to_float n \<noteq> Inl ZeroDivisionError"
  by (simp add: int_to_float_def)

lemma float_mul_int_no_zero_div: "float_mul_int x n \<noteq> Inl ZeroDivisionError"
  by (simp add: float_mul_int_def int_to_float_def)

lemma float_div_int_max_no_zero_div: "float_div_int x (max n 1) \<noteq> Inl ZeroDivisionError"
  by (auto simp: float_div_int_def int_to_float_def float_truediv_def)

lemma int_truediv_2_no_zero_div: "int_truediv n 2 \<noteq> Inl ZeroDivisionError"
  by (simp add: int_truediv_def)

lemma score_no_zero_div: "score cx cy ia d \<noteq> Inl ZeroDivisionError"
proof -
  obtain x1 y1 x2 y2 where bb: "bbox d = (x1, y1, x2, y2)" by (cases "bbox d") auto
  have "float_truediv 1 (1 + sqrt (a + b)) \<noteq> Inl ZeroDivisionError"
    if "0 \<le> a" "0 \<le> b" for a b
    using that one_plus_sqrt_nonzero [of "a + b"] by (simp add: float_truediv_def)
  then show ?thesis
    using float_pow2_no_zero_div float_mul_int_no_zero_div
    by (auto simp: score_def bb dest!: float_pow2_nonneg split: sum.splits)
qed

lemma keys_of_Inl: "keys_of f xs = Inl e \<Longrightarrow> \<exists>x\<in>set xs. f x = Inl e"
  by (induction xs) (auto split: sum.splits)

lemma keys_of_total: "(\<And>x. x \<in> set xs \<Longrightarrow> \<exists>k. f x = Inr k) \<Longrightarrow> \<exists>ks. keys_of f xs = Inr ks"
proof (induction xs)
  case Nil
  then show ?case by simp
next
  case (Cons x xs)
  from Cons.prems [of x] obtain k where "f x = Inr k" by auto
  moreover from Cons.IH Cons.prems obtain ks where "keys_of f xs = Inr ks" by auto
  ultimately show ?case by simp
qed

lemma rank_objects_no_zero_div: "rank_objects dets w h \<noteq> Inl ZeroDivisionError"
proof
  assume a: "rank_objects dets w h = Inl ZeroDivisionError"
  then have ne: "dets \<noteq> []" by (auto simp: rank_objects_def)
  from a ne int_truediv_2_no_zero_div obtain cx cy
    where "sorted_reverse (score cx cy (max (w * h) 1)) dets = Inl ZeroDivisionError"
    by (auto simp: rank_objects_def split: sum.splits)
  then have "keys_of (score cx cy (max (w * h) 1)) dets = Inl ZeroDivisionError"
    by (auto simp: sorted_reverse_def split: sum.splits)
  from keys_of_Inl [OF this] score_no_zero_div show False by blast
qed

lemma pos_word_no_zero_div: "pos_word cx w \<noteq> Inl ZeroDivisionError"
  using float_div_int_max_no_zero_div [of cx w]
  by (auto simp: pos_word_def split: sum.splits)

lemma describe_no_zero_div: "describe obj w h \<noteq> Inl ZeroDivisionError"
proof -
  obtain x1 y1 x2 y2 where bb: "bbox obj = (x1, y1, x2, y2)" by (cases "bbox obj") auto
  show ?thesis
    using float_div_int_max_no_zero_div pos_word_no_zero_div
    by (auto simp: describe_def bb split: sum.splits)
qed

lemma make_phrase_no_zero_div: "make_phrase objs w h \<noteq> Inl ZeroDivisionError"
proof (cases objs)
  case Nil
  then show ?thesis by simp
next
  case (Cons obj0 rest)
  then show ?thesis
    using describe_no_zero_div
    by (cases rest) (auto split: sum.splits)
qed


subsection \<open>No overflow on moderate inputs\<close>

lemma abs_square_le:
  assumes "\<bar>a\<bar> \<le> c"
  shows "\<bar>a * a\<bar> \<le> c * (c::real)"
proof -
  from assms have "0 \<le> c" by linarith
  with assms have "\<bar>a\<bar> * \<bar>a\<bar> \<le> c * c" by (intro mult_mono) simp_all
  then show ?thesis by (simp add: abs_mult)
qed

lemma pow_facts:
  "(2::real) ^ 500 = 2 * 2 ^ 499"
  "(2::real) ^ 501 = 4 * 2 ^ 499"
  "(2::real) ^ 501 * 2 ^ 501 \<le> 2 ^ 1023"
  "(2::real) ^ 1000 \<le> 2 ^ 1023"
  "(2::real) ^ 500 \<le> 2 ^ 1023"
  "(2::real) ^ 499 \<le> 2 ^ 1023"
  "(2::int) ^ 500 * 2 ^ 500 = 2 ^ 1000"
  "(1::int) \<le> 2 ^ 500"
  "(1::int) \<le> 2 ^ 1000"
  by simp_all

lemma of_int_abs_le:
  assumes "\<bar>n\<bar> \<le> 2 ^ k"
  shows "\<bar>real_of_int n\<bar> \<le> 2 ^ k"
proof -
  from assms have "real_of_int \<bar>n\<bar> \<le> real_of_int (2 ^ k)" by (simp only: of_int_le_iff)
  then show ?thesis by simp
qed

lemma int_truediv_2_bounded:
  assumes "\<bar>n\<bar> \<le> 2 ^ 500"
  shows "int_truediv n 2 = Inr (real_of_int n / 2) \<and> \<bar>real_of_int n / 2\<bar> \<le> 2 ^ 499"
proof -
  from of_int_abs_le [OF assms] have h: "\<bar>real_of_int n / 2\<bar> \<le> 2 ^ 499"
    using pow_facts(1) by linarith
  with pow_facts(6) have "\<bar>real_of_int n / 2\<bar> \<le> 2 ^ 1023" by linarith
  from no_overflow [OF this] h show ?thesis by (simp add: int_truediv_def)
qed

lemma int_to_float_area_bounded:
  assumes "\<bar>w\<bar> \<le> 2 ^ 500" and "\<bar>h\<bar> \<le> 2 ^ 500"
  shows "int_to_float (max (w * h) 1) = Inr (real_of_int (max (w * h) 1))"
proof -
  have "\<bar>w\<bar> * \<bar>h\<bar> \<le> 2 ^ 500 * 2 ^ 500"
    using assms by (intro mult_mono) simp_all
  then have "\<bar>w * h\<bar> \<le> 2 ^ 1000" by (simp only: abs_mult pow_facts(7))
  with pow_facts(9) have "\<bar>max (w * h) 1\<bar> \<le> 2 ^ 1000" by linarith
  from of_int_abs_le [OF this] pow_facts(4)
  have "\<bar>real_of_int (max (w * h) 1)\<bar> \<le> 2 ^ 1023" by linarith
  from no_overflow [OF this] show ?thesis by (simp only: int_to_float_def if_False)
qed

lemma int_to_float_width_bounded:
  assumes "\<bar>w\<bar> \<le> 2 ^ 500"
  shows "int_to_float (max w 1) = Inr (real_of_int (max w 1))"
proof -
  from assms pow_facts(8) have "\<bar>max w 1\<bar> \<le> 2 ^ 500" by linarith
  from of_int_abs_le [OF this] pow_facts(5)
  have "\<bar>real_of_int (max w 1)\<bar> \<le> 2 ^ 1023" by linarith
  from no_overflow [OF this] show ?thesis by (simp only: int_to_float_def if_False)
qed

lemma centre_offset_le:
  fixes a b c p :: real
  assumes "\<bar>a\<bar> \<le> 2 * p" and "\<bar>b\<bar> \<le> 2 * p" and "\<bar>c\<bar> \<le> p"
  shows "\<bar>(a + b) / 2 - c\<bar> \<le> 4 * p"
proof -
  have "(a + b) / 2 = a / 2 + b / 2" by (simp add: add_divide_distrib)
  with assms show ?thesis by linarith
qed

lemma float_pow2_bounded:
  assumes "\<bar>a\<bar> \<le> 2 ^ 500" and "\<bar>b\<bar> \<le> 2 ^ 500" and "\<bar>c\<bar> \<le> 2 ^ 499"
  shows "\<exists>y. float_pow2 ((a + b) / 2 - c) = Inr y"
proof -
  from assms have "\<bar>(a + b) / 2 - c\<bar> \<le> 4 * 2 ^ 499"
    unfolding pow_facts(1) by (rule centre_offset_le)
  then have "\<bar>(a + b) / 2 - c\<bar> \<le> 2 ^ 501" by (simp only: pow_facts(2))
  from abs_square_le [OF this] pow_facts(3)
  have "\<bar>((a + b) / 2 - c) * ((a + b) / 2 - c)\<bar> \<le> 2 ^ 1023"
    by linarith
  from no_overflow [OF this] show ?thesis by (simp only: float_pow2_def if_False) blast
qed

lemma score_bounded:
  assumes "box_within (2 ^ 500) d" and "\<bar>cx\<bar> \<le> 2 ^ 499" and "\<bar>cy\<bar> \<le> 2 ^ 499"
    and "int_to_float ia = Inr m"
  shows "\<exists>s. score cx cy ia d = Inr s"
proof -
  obtain x1 y1 x2 y2 where bb: "bbox d = (x1, y1, x2, y2)" by (cases "bbox d") auto
  with assms(1) have b: "\<bar>x1\<bar> \<le> 2 ^ 500" "\<bar>y1\<bar> \<le> 2 ^ 500" "\<bar>x2\<bar> \<le> 2 ^ 500" "\<bar>y2\<bar> \<le> 2 ^ 500"
    by (simp_all only: box_within_def prod.case)
  from float_pow2_bounded [OF b(1) b(3) assms(2)] obtain dx2
    where dx: "float_pow2 ((x1 + x2) / 2 - cx) = Inr dx2" by blast
  from float_pow2_bounded [OF b(2) b(4) assms(3)] obtain dy2
    where dy: "float_pow2 ((y1 + y2) / 2 - cy) = Inr dy2" by blast
  have "0 \<le> dx2 + dy2" using float_pow2_nonneg [OF dx] float_pow2_nonneg [OF dy] by simp
  from one_plus_sqrt_nonzero [OF this] show ?thesis
    by (simp add: score_def bb dx dy float_truediv_def float_mul_int_def assms(4))
qed

lemma rank_objects_bounded:
  assumes "\<bar>w\<bar> \<le> 2 ^ 500" and "\<bar>h\<bar> \<le> 2 ^ 500"
    and "\<And>d. d \<in> set dets \<Longrightarrow> box_within (2 ^ 500) d"
  shows "\<exists>out. rank_objects dets w h = Inr out"
proof -
  note cx = int_truediv_2_bounded [OF assms(1)] and cy = int_truediv_2_bounded [OF assms(2)]
  define f where "f = score (real_of_int w / 2) (real_of_int h / 2) (max (w * h) 1)"
  have "\<exists>s. f d = Inr s" if "d \<in> set dets" for d
    unfolding f_def
    using score_bounded [OF assms(3) [OF that] _ _ int_to_float_area_bounded [OF assms(1,2)]]
      cx cy by blast
  from keys_of_total [of dets f, OF this]
  obtain ks where "keys_of f dets = Inr ks" by blast
  then show ?thesis
    using cx cy by (simp add: rank_objects_def sorted_reverse_def f_def)
qed

lemma describe_bounded:
  assumes "\<bar>w\<bar> \<le> 2 ^ 500" and "\<bar>h\<bar> \<le> 2 ^ 500"
  shows "\<exists>a. describe obj w h = Inr a"
proof -
  obtain x1 y1 x2 y2 where bb: "bbox obj = (x1, y1, x2, y2)" by (cases "bbox obj") auto
  have "0 < max (w * h) 1" "0 < max w 1" by simp_all
  then have "0 < real_of_int (max (w * h) 1)" "0 < real_of_int (max w 1)"
    by (simp_all only: of_int_0_less_iff)
  then have nz: "real_of_int (max (w * h) 1) \<noteq> 0" "real_of_int (max w 1) \<noteq> 0"
    by simp_all
  have a: "\<exists>r. float_div_int x (max (w * h) 1) = Inr r" for x
    using nz(1) by (simp only: float_div_int_def int_to_float_area_bounded [OF assms]
        sum.case float_truediv_def if_False) blast
  have p: "\<exists>r. pos_word x w = Inr r" for x
    using nz(2) by (simp only: pos_word_def float_div_int_def
        int_to_float_width_bounded [OF assms(1)] sum.case float_truediv_def if_False) blast
  from a [of "max 0 (x2 - x1) * max 0 (y2 - y1)"] p [of "(x1 + x2) / 2"]
  show ?thesis
    by (auto simp: describe_def bb)
qed

lemma make_phrase_bounded:
  assumes "\<bar>w\<bar> \<le> 2 ^ 500" and "\<bar>h\<bar> \<le> 2 ^ 500"
  shows "\<exists>s. make_phrase objs w h = Inr s"
proof (cases objs)
  case Nil
  then show ?thesis by simp
next
  case (Cons obj0 rest)
  from describe_bounded [OF assms] obtain a where a: "describe obj0 w h = Inr a" by blast
  show ?thesis
  proof (cases rest)
    case Nil
    with Cons a show ?thesis by simp
  next
    case (Cons obj1 rest')
    from describe_bounded [OF assms] obtain b where "describe obj1 w h = Inr b" by blast
    with \<open>objs = obj0 # rest\<close> Cons a show ?thesis by simp
  qed
qed


section \<open>Ranking\<close>

subsection \<open>The sort\<close>

text \<open>\<open>keys_of\<close> succeeds exactly when every key does, and then lists the keys in order.\<close>

lemma keys_of_Inr_iff: "keys_of f xs = Inr ks \<longleftrightarrow> map f xs = map Inr ks"
proof (induction xs arbitrary: ks)
  case Nil
  then show ?case by auto
next
  case (Cons x xs)
  show ?case
  proof (cases "f x")
    case (Inl e)
    then show ?thesis by (cases ks) auto
  next
    case (Inr k)
    show ?thesis
    proof (cases ks)
      case Nil
      with Inr show ?thesis by (simp split: sum.splits)
    next
      case (Cons k' ks')
      with Inr Cons.IH [of ks'] show ?thesis by (auto split: sum.splits)
    qed
  qed
qed

text \<open>
  What a successful \<open>sorted_reverse\<close> returns: a permutation of the input, whose keys
  descend, and in which the elements of any one key stand in their input order.
\<close>

lemma sorted_reverse_props:
  assumes "sorted_reverse f xs = Inr out"
  shows "mset out = mset xs"
    and "\<exists>ks. map f out = map Inr ks \<and> sorted_wrt (\<ge>) ks"
    and "filter (\<lambda>x. f x = s) out = filter (\<lambda>x. f x = s) xs"
proof -
  from assms obtain ks where ks: "keys_of f xs = Inr ks"
    and out: "out = map snd (rev (sort_key fst (rev (zip ks xs))))"
    by (auto simp: sorted_reverse_def split: sum.splits)
  from ks have fk: "map f xs = map Inr ks" by (simp add: keys_of_Inr_iff)
  then have len: "length ks = length xs" by (metis length_map)
  define ps where "ps = zip ks xs"
  define qs where "qs = rev (sort_key fst (rev ps))"
  have out': "out = map snd qs" by (simp add: out qs_def ps_def)
  have snd_ps: "map snd ps = xs" by (simp add: ps_def len)
  have key_ps: "f (snd p) = Inr (fst p)" if "p \<in> set ps" for p
  proof -
    from that obtain i where i: "i < length xs" "p = (ks ! i, xs ! i)"
      by (auto simp: ps_def in_set_zip len)
    from fk i(1) have "f (xs ! i) = Inr (ks ! i)"
      by (metis len nth_map)
    with i show ?thesis by simp
  qed
  have set_qs: "set qs = set ps" by (simp add: qs_def)
  have "mset qs = mset ps" by (simp add: qs_def)
  then have "mset (map snd qs) = mset (map snd ps)" by (metis mset_map)
  then show "mset out = mset xs" by (simp add: out' snd_ps)
  have "map f out = map Inr (map fst qs)"
    by (simp add: out' set_qs key_ps)
  moreover have "sorted_wrt (\<ge>) (map fst qs)"
  proof -
    have "sorted (map fst (sort_key fst (rev ps)))" by (rule sorted_sort_key)
    then have "sorted_wrt (\<ge>) (rev (map fst (sort_key fst (rev ps))))"
      by (simp only: sorted_wrt_rev)
    then show ?thesis
      by (simp only: qs_def rev_map)
  qed
  ultimately show "\<exists>ks. map f out = map Inr ks \<and> sorted_wrt (\<ge>) ks" by blast
  show "filter (\<lambda>x. f x = s) out = filter (\<lambda>x. f x = s) xs"
  proof (cases s)
    case (Inl e)
    have "filter (\<lambda>x. f x = s) (map snd rs) = []" if "set rs \<subseteq> set ps" for rs
      using that key_ps Inl by (auto simp: filter_empty_conv)
    from this [of qs] this [of ps] show ?thesis by (simp add: out' set_qs snd_ps)
  next
    case (Inr k)
    have sel: "filter (\<lambda>x. f x = s) (map snd rs) = map snd (filter (\<lambda>p. fst p = k) rs)"
      if "set rs \<subseteq> set ps" for rs
    proof -
      have "filter ((\<lambda>x. f x = s) \<circ> snd) rs = filter (\<lambda>p. fst p = k) rs"
        using that key_ps Inr by (intro filter_cong) auto
      then show ?thesis by (simp add: filter_map)
    qed
    have "filter (\<lambda>p. fst p = k) qs = filter (\<lambda>p. fst p = k) ps"
      by (simp add: qs_def rev_filter [symmetric] sort_key_stable)
    with sel [of qs] sel [of ps] show ?thesis by (simp add: out' set_qs snd_ps)
  qed
qed

subsection \<open>\<open>rank_objects\<close>\<close>

lemma frame_score_eq:
  assumes "int_truediv w 2 = Inr cx" and "int_truediv h 2 = Inr cy"
  shows "frame_score w h = score cx cy (max (w * h) 1)"
  using assms by (intro ext) (simp add: frame_score_def)

lemma rank_objects_nonempty:
  assumes "rank_objects dets w h = Inr out" and "dets \<noteq> []"
  shows "sorted_reverse (frame_score w h) dets = Inr out"
proof -
  from assms obtain cx cy where c: "int_truediv w 2 = Inr cx" "int_truediv h 2 = Inr cy"
    and s: "sorted_reverse (score cx cy (max (w * h) 1)) dets = Inr out"
    by (auto simp: rank_objects_def split: sum.splits)
  from s show ?thesis by (simp add: frame_score_eq [OF c])
qed

lemma rank_objects_props:
  assumes "rank_objects dets w h = Inr out"
  shows "mset out = mset dets"
    and "\<exists>ks. map (frame_score w h) out = map Inr ks \<and> sorted_wrt (\<ge>) ks"
    and "filter (\<lambda>d. frame_score w h d = s) out = filter (\<lambda>d. frame_score w h d = s) dets"
proof -
  show "mset out = mset dets"
  proof (cases "dets = []")
    case True
    with assms show ?thesis by (simp add: rank_objects_def)
  next
    case False
    from sorted_reverse_props(1) [OF rank_objects_nonempty [OF assms False]] show ?thesis .
  qed
  show "\<exists>ks. map (frame_score w h) out = map Inr ks \<and> sorted_wrt (\<ge>) ks"
  proof (cases "dets = []")
    case True
    with assms show ?thesis by (simp add: rank_objects_def)
  next
    case False
    from sorted_reverse_props(2) [OF rank_objects_nonempty [OF assms False]] show ?thesis .
  qed
  show "filter (\<lambda>d. frame_score w h d = s) out = filter (\<lambda>d. frame_score w h d = s) dets"
  proof (cases "dets = []")
    case True
    with assms show ?thesis by (simp add: rank_objects_def)
  next
    case False
    from sorted_reverse_props(3) [OF rank_objects_nonempty [OF assms False]] show ?thesis .
  qed
qed

text \<open>
  C1. Whenever \<^verbatim>\<open>rank_objects\<close> returns a list, that list is a permutation of the input,
  the salience scores along it never increase, and the sort is stable: for every score,
  the detections with exactly that score appear in the output in their input order. It
  does return a list when the frame dimensions and the box coordinates are at most
  \<open>2^500\<close> in magnitude.
\<close>

theorem rank_objects_sorted_stable_permutation:
  "(rank_objects dets w h = Inr out \<longrightarrow>
      mset out = mset dets \<and>
      (\<exists>ks. map (frame_score w h) out = map Inr ks \<and> sorted_wrt (\<ge>) ks) \<and>
      (\<forall>s. filter (\<lambda>d. frame_score w h d = s) out =
           filter (\<lambda>d. frame_score w h d = s) dets)) \<and>
   (\<bar>w\<bar> \<le> 2 ^ 500 \<and> \<bar>h\<bar> \<le> 2 ^ 500 \<and> (\<forall>d\<in>set dets. box_within (2 ^ 500) d) \<longrightarrow>
      (\<exists>ranked. rank_objects dets w h = Inr ranked))"
proof -
  have "\<exists>ranked. rank_objects dets w h = Inr ranked"
    if "\<bar>w\<bar> \<le> 2 ^ 500" "\<bar>h\<bar> \<le> 2 ^ 500" "\<forall>d\<in>set dets. box_within (2 ^ 500) d"
    using that by (intro rank_objects_bounded) simp_all
  then show ?thesis
    using rank_objects_props [of dets w h out] by blast
qed

text \<open>
  Three detections in a 640 x 480 frame that differ in label only: the car outranks the
  cat and the dog, which tie at 73440 and keep their input order.
\<close>

lemma int_truediv_640: "int_truediv 640 2 = Inr 320"
  by (simp add: int_truediv_def float_overflows_def)

lemma int_truediv_480: "int_truediv 480 2 = Inr 240"
  by (simp add: int_truediv_def float_overflows_def)

lemma score_centred:
  "score 320 240 307200 (centred l) = Inr (73440 * priority l)"
  by (simp add: score_def centred_def float_pow2_def float_overflows_def float_truediv_def
      float_mul_int_def int_to_float_def)

lemma frame_score_centred: "frame_score 640 480 (centred l) = Inr (73440 * priority l)"
  by (simp add: frame_score_def int_truediv_640 int_truediv_480 score_centred)

lemma rank_centred:
  "rank_objects [centred ''cat'', centred ''dog'', centred ''car''] 640 480 =
     Inr [centred ''car'', centred ''cat'', centred ''dog'']"
  by (simp add: rank_objects_def int_truediv_640 int_truediv_480 sorted_reverse_def
      score_centred priority_def DANGER_def)

theorem rank_objects_sorted_stable_permutation_witness:
  "\<bar>640::int\<bar> \<le> 2 ^ 500 \<and> \<bar>480::int\<bar> \<le> 2 ^ 500 \<and>
   box_within (2 ^ 500) (centred ''cat'') \<and> box_within (2 ^ 500) (centred ''dog'') \<and>
   box_within (2 ^ 500) (centred ''car'') \<and>
   (\<exists>ranked. rank_objects [centred ''cat'', centred ''dog'', centred ''car''] 640 480 =
      Inr ranked) \<and>
   rank_objects [centred ''cat'', centred ''dog'', centred ''car''] 640 480 =
     Inr [centred ''car'', centred ''cat'', centred ''dog''] \<and>
   mset [centred ''car'', centred ''cat'', centred ''dog''] =
     mset [centred ''cat'', centred ''dog'', centred ''car''] \<and>
   map (frame_score 640 480) [centred ''car'', centred ''cat'', centred ''dog''] =
     map Inr [99144, 73440, 73440] \<and>
   sorted_wrt (\<ge>) [99144, 73440, 73440 :: real] \<and>
   filter (\<lambda>d. frame_score 640 480 d = Inr 73440)
       [centred ''car'', centred ''cat'', centred ''dog''] =
     filter (\<lambda>d. frame_score 640 480 d = Inr 73440)
       [centred ''cat'', centred ''dog'', centred ''car'']"
proof -
  have f: "\<bar>640::int\<bar> \<le> 2 ^ 500" "\<bar>480::int\<bar> \<le> 2 ^ 500" by simp_all
  have b: "box_within (2 ^ 500) (centred l)" for l
    by (simp add: box_within_def centred_def)
  then have all: "\<forall>d\<in>set [centred ''cat'', centred ''dog'', centred ''car''].
      box_within (2 ^ 500) d" by simp
  have sc: "map (frame_score 640 480) [centred ''car'', centred ''cat'', centred ''dog''] =
     map Inr [99144, 73440, 73440]"
    by (simp add: frame_score_centred priority_def DANGER_def)
  have srt: "sorted_wrt (\<ge>) [99144, 73440, 73440 :: real]" by simp
  from rank_objects_sorted_stable_permutation
    [of "[centred ''cat'', centred ''dog'', centred ''car'']" 640 480
        "[centred ''car'', centred ''cat'', centred ''dog'']"]
    rank_centred f all
  have "mset [centred ''car'', centred ''cat'', centred ''dog''] =
          mset [centred ''cat'', centred ''dog'', centred ''car'']"
    and "filter (\<lambda>d. frame_score 640 480 d = Inr 73440)
           [centred ''car'', centred ''cat'', centred ''dog''] =
         filter (\<lambda>d. frame_score 640 480 d = Inr 73440)
           [centred ''cat'', centred ''dog'', centred ''car'']"
    and "\<exists>ranked. rank_objects [centred ''cat'', centred ''dog'', centred ''car''] 640 480 =
           Inr ranked"
    by blast+
  with f b rank_centred sc srt show ?thesis by blast
qed


section \<open>Descriptors\<close>

lemma words_distinct:
  "distinct [word_left, word_center, word_right]"
  "distinct [word_very_close, word_close, word_medium, word_far]"
  "word_dangerous \<noteq> word_not_dangerous"
  by (simp_all add: word_left_def word_center_def word_right_def word_very_close_def
      word_close_def word_medium_def word_far_def word_dangerous_def word_not_dangerous_def)

text \<open>
  C4. The comparisons of \<^verbatim>\<open>pos_word\<close> and \<^verbatim>\<open>distance_word\<close> are strict: when the relative
  position \<open>x = cx / max(w, 1)\<close> is exactly 0.35 or exactly 0.65 the word is the one for
  the centre, and an area ratio of exactly 0.22, 0.10 or 0.04 gets the word of the lower
  bucket: close, medium, far.
\<close>

theorem bucket_boundaries:
  assumes "float_div_int cx (max w 1) = Inr x" and "x = 0.35 \<or> x = 0.65"
  shows "pos_word cx w = Inr word_center \<and>
         distance_word 0.22 = word_close \<and>
         distance_word 0.10 = word_medium \<and>
         distance_word 0.04 = word_far"
  using assms by (auto simp add: pos_word_def distance_word_def)

theorem bucket_boundaries_witness:
  "float_div_int 35 (max 100 1) = Inr 0.35 \<and> float_div_int 65 (max 100 1) = Inr 0.65 \<and>
   pos_word 35 100 = Inr word_center \<and> pos_word 65 100 = Inr word_center \<and>
   distance_word 0.22 = word_close \<and> distance_word 0.10 = word_medium \<and>
   distance_word 0.04 = word_far"
proof -
  have a: "float_div_int 35 (max 100 1) = Inr 0.35"
    by (simp add: float_div_int_def int_to_float_def float_overflows_def float_truediv_def)
  have b: "float_div_int 65 (max 100 1) = Inr 0.65"
    by (simp add: float_div_int_def int_to_float_def float_overflows_def float_truediv_def)
  from bucket_boundaries [OF a] bucket_boundaries [OF b] a b show ?thesis by simp
qed

text \<open>The descriptor of the car of the end-to-end scenario; its name is "mashina".\<close>

lemma describe_car_det:
  "describe car_det 640 480 =
     Inr \<lparr>name = [CHR 0xD0, CHR 0xBC, CHR 0xD0, CHR 0xB0, CHR 0xD1, CHR 0x88, CHR 0xD0,
                  CHR 0xB8, CHR 0xD0, CHR 0xBD, CHR 0xD0, CHR 0xB0],
          pos = word_left, dist_w = word_close, danger = word_dangerous\<rparr>"
  by (simp add: describe_def car_det_def float_div_int_def int_to_float_def float_overflows_def
      float_truediv_def pos_word_def distance_word_def danger_word_def DANGER_def ru_label_def
      RU_LABELS_def)

text \<open>
  C5. Ranking and description consult the one table \<^verbatim>\<open>DANGER\<close>: a label gets the
  multiplier 1.35 in \<^verbatim>\<open>score\<close> exactly when \<^verbatim>\<open>danger_word\<close> calls it dangerous, which is
  exactly when it is in \<^verbatim>\<open>DANGER\<close>; and the \<^verbatim>\<open>"danger"\<close> entry of a descriptor is
  \<^verbatim>\<open>danger_word\<close> of the label.
\<close>

theorem danger_set_shared:
  "(priority l = 1.35) = (danger_word l = word_dangerous) \<and>
   (priority l = 1.35) = (l \<in> DANGER) \<and>
   (describe obj w h = Inr a \<longrightarrow> danger a = danger_word (label obj))"
  by (auto simp add: priority_def danger_word_def word_dangerous_def word_not_dangerous_def
      describe_def split: prod.splits sum.splits)

theorem danger_set_shared_witness:
  "priority ''car'' = 1.35 \<and> danger_word ''car'' = word_dangerous \<and> ''car'' \<in> DANGER \<and>
   priority ''cat'' \<noteq> 1.35 \<and> danger_word ''cat'' \<noteq> word_dangerous \<and> ''cat'' \<notin> DANGER \<and>
   (\<exists>a. describe car_det 640 480 = Inr a \<and> danger a = danger_word (label car_det))"
proof -
  have car: "''car'' \<in> DANGER" and cat: "''cat'' \<notin> DANGER"
    by (simp_all add: DANGER_def)
  obtain a where a: "describe car_det 640 480 = Inr a"
    using describe_car_det by blast
  from danger_set_shared [of "''car''" car_det 640 480 a]
    danger_set_shared [of "''cat''" car_det 640 480 a] a car cat
  show ?thesis by blast
qed



section \<open>The end-to-end scenario\<close>

lemma rank_car_det: "rank_objects [car_det] 640 480 = Inr [car_det]"
  by (simp add: rank_objects_def int_truediv_640 int_truediv_480 sorted_reverse_def
      score_def car_det_def float_pow2_def float_overflows_def float_truediv_def
      float_mul_int_def int_to_float_def one_plus_sqrt_nonzero)

text \<open>
  C7. The claim has the car of the scenario in the centre of the frame. The centre of
  its box is at \<open>x = 200\<close>, and \<open>200 / 640 = 0.3125\<close> is below 0.35: \<^verbatim>\<open>pos_word\<close> answers
  with the word for the left, and so does the descriptor.
\<close>

theorem end_to_end_car_not_centred:
  "pos_word ((100 + 300) / 2) 640 = Inr word_left \<and> word_left \<noteq> word_center \<and>
   describe car_det 640 480 \<noteq>
     Inr \<lparr>name = [CHR 0xD0, CHR 0xBC, CHR 0xD0, CHR 0xB0, CHR 0xD1, CHR 0x88, CHR 0xD0,
                  CHR 0xB8, CHR 0xD0, CHR 0xBD, CHR 0xD0, CHR 0xB0],
          pos = word_center, dist_w = word_close, danger = word_dangerous\<rparr>"
  by (simp add: describe_car_det pos_word_def float_div_int_def int_to_float_def
      float_overflows_def float_truediv_def word_left_def word_center_def)

text \<open>
  C7, as the code has it. The single detection \<open>car_det\<close> in a 640 x 480 frame is ranked
  to a list of length 1 and selected alone; its descriptor has the name "mashina", the
  position on the left, the distance close (the area ratio is \<open>40000 / 307200\<close>, between
  0.10 and 0.22) and the word for dangerous; the sentence is "Pered vami mashina, sleva,
  blizko. Eto opasno."
\<close>

theorem end_to_end_car:
  "rank_objects [car_det] 640 480 = Inr [car_det] \<and>
   length [car_det] = 1 \<and>
   pick_main_and_danger [car_det] = [car_det] \<and>
   describe car_det 640 480 =
     Inr \<lparr>name = [CHR 0xD0, CHR 0xBC, CHR 0xD0, CHR 0xB0, CHR 0xD1, CHR 0x88, CHR 0xD0,
                  CHR 0xB8, CHR 0xD0, CHR 0xBD, CHR 0xD0, CHR 0xB0],
          pos = word_left, dist_w = word_close, danger = word_dangerous\<rparr> \<and>
   make_phrase [car_det] 640 480 =
     Inr (txt_before_you
          @ [CHR 0xD0, CHR 0xBC, CHR 0xD0, CHR 0xB0, CHR 0xD1, CHR 0x88, CHR 0xD0,
             CHR 0xB8, CHR 0xD0, CHR 0xBD, CHR 0xD0, CHR 0xB0]
          @ '', '' @ word_left @ '', '' @ word_close @ txt_this_is @ word_dangerous @ ''.'')"
  by (simp add: rank_car_det describe_car_det)


section \<open>Hazards rank first\<close>

text \<open>
  Two detections with the same box get scores \<open>b * conf * priority\<close> with one and the
  same positive \<open>b\<close>, or fail alike.
\<close>

lemma score_same_bbox:
  assumes "bbox d1 = bbox d2" and "0 < ia"
  shows "(\<exists>e. score cx cy ia d1 = Inl e \<and> score cx cy ia d2 = Inl e) \<or>
         (\<exists>b. 0 < b \<and> score cx cy ia d1 = Inr (b * conf d1 * priority (label d1))
                      \<and> score cx cy ia d2 = Inr (b * conf d2 * priority (label d2)))"
proof -
  obtain x1 y1 x2 y2 where bb: "bbox d2 = (x1, y1, x2, y2)" by (cases "bbox d2") auto
  define area where "area = max 0 (x2 - x1) * max 0 (y2 - y1)"
  have area: "0 \<le> area" by (simp add: area_def)
  show ?thesis
  proof (cases "float_pow2 ((x1 + x2) / 2 - cx)")
    case (Inl e)
    with bb assms show ?thesis by (simp add: score_def)
  next
    case dx: (Inr dx2)
    then have dx2: "0 \<le> dx2" by (auto simp: float_pow2_def split: if_splits)
    show ?thesis
    proof (cases "float_pow2 ((y1 + y2) / 2 - cy)")
      case (Inl e)
      with bb assms dx show ?thesis by (simp add: score_def)
    next
      case dy: (Inr dy2)
      then have dy2: "0 \<le> dy2" by (auto simp: float_pow2_def split: if_splits)
      define cs where "cs = 1 / (1 + sqrt (dx2 + dy2))"
      have nz: "1 + sqrt (dx2 + dy2) \<noteq> 0"
        using dx2 dy2 by (intro one_plus_sqrt_nonzero) simp
      have cs: "0 < cs" using dx2 dy2 by (simp add: cs_def add_pos_nonneg)
      have td: "float_truediv 1 (1 + sqrt (dx2 + dy2)) = Inr cs"
        using nz by (simp add: float_truediv_def cs_def)
      show ?thesis
      proof (cases "float_mul_int (0.4 * cs) ia")
        case (Inl e)
        with bb assms dx dy td show ?thesis by (simp add: score_def)
      next
        case (Inr c)
        then have "c = 0.4 * cs * real_of_int ia"
          by (auto simp: float_mul_int_def int_to_float_def split: if_splits)
        moreover have "0 < cs * real_of_int ia" using cs assms(2) by simp
        ultimately have c: "0 < c" by simp
        have "0 < 0.6 * area + c" using area c by simp
        moreover have "score cx cy ia d1 = Inr ((0.6 * area + c) * conf d1 * priority (label d1))"
          using bb assms dx dy td Inr by (simp add: score_def area_def)
        moreover have "score cx cy ia d2 = Inr ((0.6 * area + c) * conf d2 * priority (label d2))"
          using bb assms dx dy td Inr by (simp add: score_def area_def)
        ultimately show ?thesis by blast
      qed
    qed
  qed
qed

lemma frame_score_same_bbox:
  assumes "bbox d1 = bbox d2"
  shows "(\<exists>e. frame_score w h d1 = Inl e \<and> frame_score w h d2 = Inl e) \<or>
         (\<exists>b. 0 < b \<and> frame_score w h d1 = Inr (b * conf d1 * priority (label d1))
                      \<and> frame_score w h d2 = Inr (b * conf d2 * priority (label d2)))"
proof (cases "int_truediv w 2")
  case (Inl e)
  then show ?thesis by (simp add: frame_score_def)
next
  case cx: (Inr cx)
  show ?thesis
  proof (cases "int_truediv h 2")
    case (Inl e)
    with cx show ?thesis by (simp add: frame_score_def)
  next
    case (Inr cy)
    have "0 < max (w * h) 1" by simp
    from score_same_bbox [OF assms this, of cx cy] cx Inr
    show ?thesis by (simp add: frame_score_def)
  qed
qed

lemma ranked_scores:
  assumes "rank_objects dets w h = Inr out" and "i < j" and "j < length out"
  shows "\<exists>a b. frame_score w h (out ! i) = Inr a \<and> frame_score w h (out ! j) = Inr b \<and> b \<le> a"
proof -
  from rank_objects_props(2) [OF assms(1)] obtain ks
    where ks: "map (frame_score w h) out = map Inr ks" and srt: "sorted_wrt (\<ge>) ks"
    by blast
  from ks have len: "length ks = length out" by (metis length_map)
  from ks assms len have "frame_score w h (out ! i) = Inr (ks ! i)"
    "frame_score w h (out ! j) = Inr (ks ! j)"
    by (metis nth_map less_trans)+
  moreover from srt assms len have "ks ! j \<le> ks ! i"
    by (simp add: sorted_wrt_iff_nth_less)
  ultimately show ?thesis by blast
qed

text \<open>
  C6. Let two detections have the same box and the same confidence, which is not
  negative, the label of the first in \<^verbatim>\<open>DANGER\<close> and the label of the second not. Then the
  first has priority 1.35 against 1.0, its score is at least the score of the second,
  and wherever both stand in an output of \<^verbatim>\<open>rank_objects\<close> the first comes earlier unless
  the scores tie exactly; with a positive confidence it comes earlier.
\<close>

theorem danger_ranks_at_least_as_high:
  assumes "bbox d1 = bbox d2" and "conf d1 = conf d2"
    and "label d1 \<in> DANGER" and "label d2 \<notin> DANGER" and "0 \<le> conf d1"
    and "rank_objects dets w h = Inr out"
    and "i < length out" and "j < length out" and "out ! i = d1" and "out ! j = d2"
  shows "priority (label d1) = 1.35 \<and> priority (label d2) = 1.0 \<and>
         priority (label d2) < priority (label d1) \<and>
         (\<exists>s1 s2. frame_score w h d1 = Inr s1 \<and> frame_score w h d2 = Inr s2 \<and> s2 \<le> s1) \<and>
         (i < j \<or> frame_score w h d1 = frame_score w h d2) \<and>
         (0 < conf d1 \<longrightarrow> i < j)"
proof -
  have pr: "priority (label d1) = 1.35" "priority (label d2) = 1.0"
    using assms(3,4) by (simp_all add: priority_def)
  have ne: "d1 \<noteq> d2" using assms(3,4) by auto
  with assms have ij: "i \<noteq> j" by auto
  have some: "\<exists>a. frame_score w h (out ! k) = Inr a" if "k < length out" for k
  proof -
    from rank_objects_props(2) [OF assms(6)] obtain ks
      where ks: "map (frame_score w h) out = map Inr ks" by blast
    then have "length ks = length out" by (metis length_map)
    with ks that show ?thesis by (metis nth_map)
  qed
  from some [OF assms(7)] some [OF assms(8)] assms(9,10)
  obtain s1 s2 where s: "frame_score w h d1 = Inr s1" "frame_score w h d2 = Inr s2"
    by auto
  from frame_score_same_bbox [OF assms(1), of w h] s obtain b
    where b: "0 < b" "s1 = b * conf d1 * 1.35" "s2 = b * conf d1 * 1.0"
    using pr assms(2) by auto
  have bc: "0 \<le> b * conf d1" using b(1) assms(5) by simp
  have le: "s2 \<le> s1" using b bc by simp
  have tie: "i < j \<or> s1 = s2"
  proof (cases "i < j")
    case True
    then show ?thesis by simp
  next
    case False
    with ij have "j < i" by simp
    from ranked_scores [OF assms(6) this assms(7)] assms(9,10) s
    have "s1 \<le> s2" by simp
    with le show ?thesis by simp
  qed
  have strict: "i < j" if "0 < conf d1"
  proof (rule ccontr)
    assume "\<not> i < j"
    with tie have eq: "s1 = s2" by simp
    with b that show False by simp
  qed
  from pr s le tie strict show ?thesis by auto
qed

lemma rank_cat_car:
  "rank_objects [centred ''cat'', centred ''car''] 640 480 =
     Inr [centred ''car'', centred ''cat'']"
  by (simp add: rank_objects_def int_truediv_640 int_truediv_480 sorted_reverse_def
      score_centred priority_def DANGER_def)

theorem danger_ranks_at_least_as_high_witness:
  "bbox (centred ''car'') = bbox (centred ''cat'') \<and>
   conf (centred ''car'') = conf (centred ''cat'') \<and>
   label (centred ''car'') \<in> DANGER \<and> label (centred ''cat'') \<notin> DANGER \<and>
   0 \<le> conf (centred ''car'') \<and> 0 < conf (centred ''car'') \<and>
   rank_objects [centred ''cat'', centred ''car''] 640 480 =
     Inr [centred ''car'', centred ''cat''] \<and>
   [centred ''car'', centred ''cat''] ! 0 = centred ''car'' \<and>
   [centred ''car'', centred ''cat''] ! 1 = centred ''cat'' \<and>
   priority (label (centred ''car'')) = 1.35 \<and> priority (label (centred ''cat'')) = 1.0 \<and>
   (\<exists>s1 s2. frame_score 640 480 (centred ''car'') = Inr s1 \<and>
            frame_score 640 480 (centred ''cat'') = Inr s2 \<and> s2 \<le> s1) \<and>
   (0::nat) < 1"
proof -
  have h: "bbox (centred ''car'') = bbox (centred ''cat'')"
    "conf (centred ''car'') = conf (centred ''cat'')"
    "label (centred ''car'') \<in> DANGER" "label (centred ''cat'') \<notin> DANGER"
    "0 \<le> conf (centred ''car'')"
    by (simp_all add: centred_def DANGER_def)
  have p: "0 < conf (centred ''car'')" by (simp add: centred_def)
  have n: "(0::nat) < length [centred ''car'', centred ''cat'']"
    "(1::nat) < length [centred ''car'', centred ''cat'']"
    "[centred ''car'', centred ''cat''] ! 0 = centred ''car''"
    "[centred ''car'', centred ''cat''] ! 1 = centred ''cat''"
    by simp_all
  from danger_ranks_at_least_as_high [OF h rank_cat_car n] h p rank_cat_car n
  show ?thesis by blast
qed


section \<open>Failures\<close>

text \<open>
  C8. The claim has no input at all make a core function fail. In the code the square
  in \<^verbatim>\<open>score\<close> is the power operator, which raises OverflowError beyond the double range,
  and so does the conversion of a frame dimension to \<^verbatim>\<open>float\<close>: a box at \<open>x = 2^600\<close> in a
  640 x 480 frame makes \<^verbatim>\<open>rank_objects\<close> fail, and a frame of width \<open>2^1024\<close> makes
  \<^verbatim>\<open>describe\<close> fail.
\<close>

theorem core_functions_overflow:
  "rank_objects [far_box] 640 480 = Inl OverflowError \<and>
   describe car_det (2 ^ 1024) 1 = Inl OverflowError"
  by (simp add: rank_objects_def int_truediv_640 int_truediv_480 sorted_reverse_def
      score_def far_box_def float_pow2_def float_overflows_def describe_def car_det_def
      float_div_int_def int_to_float_def)

text \<open>
  C8, as the code has it. No input makes \<^verbatim>\<open>rank_objects\<close>, \<^verbatim>\<open>describe\<close> or \<^verbatim>\<open>make_phrase\<close>
  divide by zero: the divisors are \<open>max(w*h, 1)\<close>, \<open>max(w, 1)\<close> and \<open>1 + dist\<close>. When the
  frame dimensions are at most \<open>2^500\<close> in magnitude, \<^verbatim>\<open>describe\<close> and \<^verbatim>\<open>make_phrase\<close> return
  for every detection, whatever its box and label; when the box coordinates are at most
  \<open>2^500\<close> in magnitude as well, \<^verbatim>\<open>rank_objects\<close> returns. (\<^verbatim>\<open>pick_main_and_danger\<close> and
  \<^verbatim>\<open>should_speak\<close> have no operation that can fail; their models are total functions.)
\<close>

theorem core_functions_total_in_range:
  "rank_objects dets w h \<noteq> Inl ZeroDivisionError \<and>
   describe obj w h \<noteq> Inl ZeroDivisionError \<and>
   make_phrase objs w h \<noteq> Inl ZeroDivisionError \<and>
   (\<bar>w\<bar> \<le> 2 ^ 500 \<and> \<bar>h\<bar> \<le> 2 ^ 500 \<longrightarrow>
      (\<exists>a. describe obj w h = Inr a) \<and> (\<exists>s. make_phrase objs w h = Inr s) \<and>
      ((\<forall>d\<in>set dets. box_within (2 ^ 500) d) \<longrightarrow> (\<exists>out. rank_objects dets w h = Inr out)))"
proof -
  have "\<exists>out. rank_objects dets w h = Inr out"
    if "\<bar>w\<bar> \<le> 2 ^ 500" "\<bar>h\<bar> \<le> 2 ^ 500" "\<forall>d\<in>set dets. box_within (2 ^ 500) d"
    using that by (intro rank_objects_bounded) simp_all
  with rank_objects_no_zero_div [of dets w h] describe_no_zero_div [of obj w h]
    make_phrase_no_zero_div [of objs w h] describe_bounded [of w h obj]
    make_phrase_bounded [of w h objs]
  show ?thesis by blast
qed

text \<open>
  A frame of area 0, a box with swapped corners, a box far outside the frame and a label
  unknown to both tables: the clamps make the area 0 and the divisors 1.
\<close>

lemma describe_degenerate:
  "describe inverted_det 0 0 =
     Inr \<lparr>name = ''unicorn'', pos = word_right, dist_w = word_far, danger = word_not_dangerous\<rparr>"
  by (simp add: describe_def inverted_det_def float_div_int_def int_to_float_def
      float_overflows_def float_truediv_def pos_word_def distance_word_def danger_word_def
      DANGER_def ru_label_def RU_LABELS_def)

theorem core_functions_total_in_range_witness:
  "\<bar>0::int\<bar> \<le> 2 ^ 500 \<and>
   box_within (2 ^ 500) inverted_det \<and> box_within (2 ^ 500) outside_det \<and>
   rank_objects [inverted_det, outside_det] 0 0 \<noteq> Inl ZeroDivisionError \<and>
   describe inverted_det 0 0 \<noteq> Inl ZeroDivisionError \<and>
   make_phrase [inverted_det, outside_det] 0 0 \<noteq> Inl ZeroDivisionError \<and>
   (\<exists>a. describe inverted_det 0 0 = Inr a) \<and>
   (\<exists>s. make_phrase [inverted_det, outside_det] 0 0 = Inr s) \<and>
   (\<exists>out. rank_objects [inverted_det, outside_det] 0 0 = Inr out)"
proof -
  have f: "\<bar>0::int\<bar> \<le> 2 ^ 500" by simp
  have b: "box_within (2 ^ 500) inverted_det" "box_within (2 ^ 500) outside_det"
    by (simp_all add: box_within_def inverted_det_def outside_det_def)
  then have "\<forall>d\<in>set [inverted_det, outside_det]. box_within (2 ^ 500) d" by simp
  with core_functions_total_in_range
    [of "[inverted_det, outside_det]" 0 0 inverted_det "[inverted_det, outside_det]"] f b
  show ?thesis by blast
qed


end
